theory Spec2Isabelle
  imports Main
begin

section \<open>The test runner of run-tests.js\<close>

text \<open>
  The runner is a class \<^verbatim>\<open>TestRunner\<close> and a function \<^verbatim>\<open>main\<close>. Everything it does
  goes through the console, \<^verbatim>\<open>execSync\<close>, the file system, the clock and
  \<^verbatim>\<open>process.exit\<close>. The model threads one record through the code: the two fields of the
  \<^verbatim>\<open>TestRunner\<close> object and, beside them, the effects the process has had so far (lines
  printed, commands executed, directories made, files written, clock readings taken).
  What the outside world answers is a parameter, the record \<open>env\<close>.
\<close>

subsection \<open>Data\<close>

datatype log_type = Info | Success | Error | Warn

text \<open>A line on the console: one printed by \<^verbatim>\<open>log\<close> (its type, its timestamp and its message),
  one printed by \<^verbatim>\<open>console.log\<close> directly, or one printed by \<^verbatim>\<open>console.error\<close>.\<close>

datatype console_line = Logged log_type string string | Plain string | Stderr string

text \<open>The options object handed to \<^verbatim>\<open>execSync\<close>; an absent key is \<open>None\<close>. The timeout is
  in milliseconds.\<close>

record exec_options =
  encoding :: "string option"
  stdio :: string
  timeout :: "nat option"

text \<open>\<^verbatim>\<open>execSync\<close> returns the standard output of a command that exits with status 0, and
  throws an error object otherwise: on a non-zero exit status, when the timeout has passed and
  the child was killed, or when the child could not be run at all. The error has a message
  and, when the child produced any, its standard output.\<close>

datatype failure_kind = NonZeroExit | TimedOut | SpawnFailure

record exec_error =
  kind :: failure_kind
  message :: string
  stdout :: "string option"

datatype exec_result = Returned string | Failed exec_error

record exec_call =
  cmd :: string
  opts :: exec_options
  outcome :: exec_result

datatype json = JNull | JBool bool | JNum int | JStr string
  | JArr "json list" | JObj "(string \<times> json) list"

text \<open>An element of the array \<^verbatim>\<open>testSuites\<close>.\<close>

record test_suite =
  name :: string
  command :: string
  critical :: bool

text \<open>The object \<^verbatim>\<open>runTestSuite\<close> returns: \<^verbatim>\<open>{ success, output }\<close> or
  \<^verbatim>\<open>{ success, error, output }\<close>. The field \<^verbatim>\<open>output\<close> is written \<open>output'\<close>, the
  plain word being reserved in Isabelle; a value that is \<^verbatim>\<open>undefined\<close> is \<open>None\<close>.\<close>

record run_result =
  success :: bool
  error :: "string option"
  output' :: "string option"

text \<open>An element of \<^verbatim>\<open>this.results.suites\<close>: \<^verbatim>\<open>{ name, success, critical, output }\<close>. The
  fields carry the prefix \<open>entry_\<close> to keep them apart from those of the two records above.\<close>

record suite_entry =
  entry_name :: string
  entry_success :: bool
  entry_critical :: bool
  entry_output :: "string option"

record results =
  total :: int
  passed :: int
  failed :: int
  skipped :: int
  suites :: "suite_entry list"

record runner =
  startTime :: int
  results :: results
  console :: "console_line list"
  execs :: "exec_call list"
  mkdirs :: "string list"
  writes :: "(string \<times> json) list"
  clock_reads :: nat

text \<open>
  The answers of the outside world. A run of \<^verbatim>\<open>main\<close> executes no command twice and asks
  for no path twice, so the answer to a command or a path is a function of it. Every call
  comes back: a child process that never ends, under a call that sets no timeout, is outside
  this model.
  \<^item> \<open>execSync_result\<close>: what \<^verbatim>\<open>execSync\<close> does with a command and its options;
  \<^item> \<open>now\<close>: what the \<open>n\<close>-th reading of the clock gives, in milliseconds;
  \<^item> \<open>toISOString\<close>: the text of a time;
  \<^item> \<open>dirname\<close>: \<^verbatim>\<open>__dirname\<close>; \<open>node_env\<close>: \<^verbatim>\<open>process.env.NODE_ENV\<close>;
  \<^item> \<open>path_join\<close>, \<open>path_dirname\<close>: the two functions of the module \<^verbatim>\<open>path\<close>;
  \<^item> \<open>existsSync\<close>: whether a path exists when the runner asks;
  \<^item> \<open>mkdirSync_error\<close>, \<open>writeFileSync_error\<close>: the message of the error the call on
    this path throws, \<open>None\<close> when it succeeds.
\<close>

record env =
  execSync_result :: "string \<Rightarrow> exec_options \<Rightarrow> exec_result"
  now :: "nat \<Rightarrow> int"
  toISOString :: "int \<Rightarrow> string"
  dirname :: string
  node_env :: "string option"
  path_join :: "string list \<Rightarrow> string"
  path_dirname :: "string \<Rightarrow> string"
  existsSync :: "string \<Rightarrow> bool"
  mkdirSync_error :: "string \<Rightarrow> string option"
  writeFileSync_error :: "string \<Rightarrow> string option"

text \<open>How \<^verbatim>\<open>main\<close> or a method ends: it returns, the process exits inside it
  (\<^verbatim>\<open>process.exit\<close>), or an error is thrown out of it.\<close>

datatype flow = Done runner | Exited int runner | Thrown string runner

subsection \<open>Text\<close>

text \<open>The characters of the messages outside ASCII, as their UTF-8 bytes.\<close>

definition check_mark :: string where
  "check_mark = [CHR 0xE2, CHR 0x9C, CHR 0x85]"

definition cross_mark :: string where
  "cross_mark = [CHR 0xE2, CHR 0x9D, CHR 0x8C]"

definition rocket :: string where
  "rocket = [CHR 0xF0, CHR 0x9F, CHR 0x9A, CHR 0x80]"

definition bar_chart :: string where
  "bar_chart = [CHR 0xF0, CHR 0x9F, CHR 0x93, CHR 0x8A]"

definition stopwatch :: string where
  "stopwatch = [CHR 0xE2, CHR 0x8F, CHR 0xB1, CHR 0xEF, CHR 0xB8, CHR 0x8F]"

definition clipboard :: string where
  "clipboard = [CHR 0xF0, CHR 0x9F, CHR 0x93, CHR 0x8B]"

definition siren :: string where
  "siren = [CHR 0xF0, CHR 0x9F, CHR 0x9A, CHR 0xA8]"

definition warning_sign :: string where
  "warning_sign = [CHR 0xE2, CHR 0x9A, CHR 0xA0, CHR 0xEF, CHR 0xB8, CHR 0x8F]"

definition party_popper :: string where
  "party_popper = [CHR 0xF0, CHR 0x9F, CHR 0x8E, CHR 0x89]"

definition page :: string where
  "page = [CHR 0xF0, CHR 0x9F, CHR 0x93, CHR 0x84]"

definition magnifier :: string where
  "magnifier = [CHR 0xF0, CHR 0x9F, CHR 0x94, CHR 0x8D]"

definition running_man :: string where
  "running_man = [CHR 0xF0, CHR 0x9F, CHR 0x8F, CHR 0x83, CHR 0xE2, CHR 0x80, CHR 0x8D,
                  CHR 0xE2, CHR 0x99, CHR 0x82, CHR 0xEF, CHR 0xB8, CHR 0x8F]"

definition colors :: "log_type \<Rightarrow> string" where
  "colors t = (case t of
       Info \<Rightarrow> CHR 0x1B # ''[36m''
     | Success \<Rightarrow> CHR 0x1B # ''[32m''
     | Error \<Rightarrow> CHR 0x1B # ''[31m''
     | Warn \<Rightarrow> CHR 0x1B # ''[33m'')"

definition colors_reset :: string where
  "colors_reset = CHR 0x1B # ''[0m''"

text \<open>The characters a console line puts on the terminal.\<close>

fun render :: "console_line \<Rightarrow> string" where
  "render (Logged t timestamp msg) = colors t @ ''['' @ timestamp @ ''] '' @ msg @ colors_reset"
| "render (Plain text) = text"
| "render (Stderr text) = text"

text \<open>A number inside a template literal is printed in decimal.\<close>

fun show_nat :: "nat \<Rightarrow> string" where
  "show_nat n = (if n < 10 then [''0123456789'' ! n]
                 else show_nat (n div 10) @ [''0123456789'' ! (n mod 10)])"

declare show_nat.simps [simp del]

definition show_int :: "int \<Rightarrow> string" where
  "show_int i = (if i < 0 then ''-'' @ show_nat (nat (- i)) else show_nat (nat i))"

text \<open>\<^verbatim>\<open>'='.repeat(60)\<close>\<close>

definition rule60 :: string where
  "rule60 = replicate 60 CHR ''=''"

text \<open>\<^verbatim>\<open>Math.round((Date.now() - this.startTime) / 1000)\<close>: \<^verbatim>\<open>Math.round\<close> rounds a half
  upwards, so on a whole number of milliseconds it is the floor of the sum with 500.\<close>

definition round_seconds :: "int \<Rightarrow> int" where
  "round_seconds ms = (ms + 500) div 1000"

definition newline :: string where
  "newline = [CHR 0x0A]"

fun join_lines :: "string list \<Rightarrow> string" where
  "join_lines [] = []"
| "join_lines [l] = l"
| "join_lines (l # ls) = l @ newline @ join_lines ls"

definition usage :: string where
  "usage = newline @ join_lines [
    ''LI.FI QA Automation Test Runner'',
    [],
    ''Usage: node run-tests.js [options]'',
    [],
    ''Options:'',
    ''  --help, -h          Show this help message'',
    ''  --check-prereq      Check prerequisites only'',
    ''  --suite <name>      Run specific test suite'',
    ''  --quick             Run only smoke and API tests'',
    [],
    ''Available test suites:'',
    ''  - smoke             Critical functionality tests'',
    ''  - api               API endpoint tests'',
    ''  - e2e               End-to-end workflow tests'',
    ''  - performance       Performance and load tests'',
    ''  - accessibility     Accessibility compliance tests'',
    ''  - security          Security vulnerability tests'',
    [],
    ''Examples:'',
    ''  node run-tests.js                    # Run all test suites'',
    ''  node run-tests.js --suite smoke      # Run only smoke tests'',
    ''  node run-tests.js --quick            # Run critical tests only'',
    ''  node run-tests.js --check-prereq     # Check prerequisites'',
    ''    '']"

subsection \<open>The class TestRunner\<close>

text \<open>The constructor takes the first reading of the clock. The process has done nothing yet.\<close>

definition constructor :: "env \<Rightarrow> runner" where
  "constructor e = \<lparr>
     startTime = now e 0,
     results = \<lparr>total = 0, passed = 0, failed = 0, skipped = 0, suites = []\<rparr>,
     console = [], execs = [], mkdirs = [], writes = [], clock_reads = 1\<rparr>"

definition log :: "env \<Rightarrow> string \<Rightarrow> log_type \<Rightarrow> runner \<Rightarrow> runner" where
  "log e msg t s =
     (let timestamp = toISOString e (now e (clock_reads s))
      in s\<lparr>console := console s @ [Logged t timestamp msg],
            clock_reads := Suc (clock_reads s)\<rparr>)"

text \<open>A call of \<^verbatim>\<open>execSync\<close>: the world answers, and the call is on record.\<close>

definition execSync :: "env \<Rightarrow> string \<Rightarrow> exec_options \<Rightarrow> runner \<Rightarrow> exec_result \<times> runner" where
  "execSync e c os s =
     (let r = execSync_result e c os
      in (r, s\<lparr>execs := execs s @ [\<lparr>cmd = c, opts = os, outcome = r\<rparr>]\<rparr>))"

definition suite_options :: exec_options where
  "suite_options = \<lparr>encoding = Some ''utf8'', stdio = ''pipe'', timeout = Some 300000\<rparr>"

definition runTestSuite :: "env \<Rightarrow> string \<Rightarrow> string \<Rightarrow> runner \<Rightarrow> run_result \<times> runner" where
  "runTestSuite e suiteName c s =
     (let s1 = log e (''Starting '' @ suiteName @ '' tests...'') Info s;
          (r, s2) = execSync e c suite_options s1
      in case r of
           Returned out \<Rightarrow>
             (\<lparr>success = True, error = None, output' = Some out\<rparr>,
              log e (check_mark @ '' '' @ suiteName @ '' tests completed successfully'') Success s2)
         | Failed err \<Rightarrow>
             (\<lparr>success = False, error = Some (message err), output' = stdout err\<rparr>,
              log e (cross_mark @ '' '' @ suiteName @ '' tests failed: '' @ message err) Error s2))"

definition testSuites :: "test_suite list" where
  "testSuites = [
     \<lparr>name = ''Smoke Tests'',
      command = ''npx playwright test --grep \"@smoke\" --reporter=json'',
      critical = True\<rparr>,
     \<lparr>name = ''API Tests'',
      command = ''npx playwright test --grep \"@api\" --reporter=json'',
      critical = True\<rparr>,
     \<lparr>name = ''E2E Tests'',
      command = ''npx playwright test --grep \"@e2e\" --reporter=json'',
      critical = False\<rparr>,
     \<lparr>name = ''Performance Tests'',
      command = ''npx playwright test --grep \"@performance\" --reporter=json'',
      critical = False\<rparr>,
     \<lparr>name = ''Accessibility Tests'',
      command = ''npx playwright test --grep \"@a11y\" --reporter=json'',
      critical = False\<rparr>,
     \<lparr>name = ''Security Tests'',
      command = ''npx playwright test --grep \"@security\" --reporter=json'',
      critical = False\<rparr>]"

text \<open>
  The body of the \<^verbatim>\<open>for\<close> loop of \<^verbatim>\<open>runAllTests\<close>, on the two counters and the runner.
  The two seconds it waits at its end change nothing the model holds.
\<close>

definition suite_step :: "env \<Rightarrow> test_suite \<Rightarrow> nat \<times> nat \<times> runner \<Rightarrow> nat \<times> nat \<times> runner" where
  "suite_step e suite st =
     (case st of (criticalFailures, totalFailures, s) \<Rightarrow>
        let (result, s1) = runTestSuite e (name suite) (command suite) s;
            s2 = s1\<lparr>results := (results s1)\<lparr>suites := suites (results s1) @
                    [\<lparr>entry_name = name suite, entry_success = success result,
                      entry_critical = critical suite, entry_output = output' result\<rparr>]\<rparr>\<rparr>
        in if \<not> success result
           then (if critical suite
                 then (criticalFailures + 1, totalFailures + 1, s2)
                 else (criticalFailures, totalFailures + 1, s2))
           else (criticalFailures, totalFailures, s2))"

fun run_suites :: "env \<Rightarrow> test_suite list \<Rightarrow> nat \<times> nat \<times> runner \<Rightarrow> nat \<times> nat \<times> runner" where
  "run_suites e [] st = st"
| "run_suites e (suite # rest) st = run_suites e rest (suite_step e suite st)"

definition critical_banner :: string where
  "critical_banner = warning_sign @ ''  CRITICAL TEST FAILURES DETECTED!''"

definition non_critical_banner :: string where
  "non_critical_banner = warning_sign @ ''  Some non-critical tests failed.''"

definition all_passed_banner :: string where
  "all_passed_banner = party_popper @ '' ALL TESTS PASSED! Ready for deployment.''"

definition generateSummaryReport :: "env \<Rightarrow> nat \<Rightarrow> nat \<Rightarrow> runner \<Rightarrow> runner" where
  "generateSummaryReport e criticalFailures totalFailures s =
     (let duration = round_seconds (now e (clock_reads s) - startTime s);
          s = s\<lparr>clock_reads := Suc (clock_reads s)\<rparr>;
          s = log e rule60 Info s;
          s = log e (bar_chart @ '' TEST EXECUTION SUMMARY'') Info s;
          s = log e rule60 Info s;
          s = log e (stopwatch @ ''  Total execution time: '' @ show_int duration @ '' seconds'') Info s;
          s = log e (clipboard @ '' Test suites executed: ''
                       @ show_nat (length (suites (results s)))) Info s;
          s = log e (check_mark @ '' Successful suites: ''
                       @ show_nat (length (filter entry_success (suites (results s))))) Success s;
          s = log e (cross_mark @ '' Failed suites: '' @ show_nat totalFailures)
                    (if totalFailures > 0 then Error else Info) s;
          s = log e (siren @ '' Critical failures: '' @ show_nat criticalFailures)
                    (if criticalFailures > 0 then Error else Success) s;
          s = (if criticalFailures > 0 then
                 log e ''   Please review and fix critical issues before deployment.'' Error
                   (log e critical_banner Error s)
               else if totalFailures > 0 then
                 log e ''   Consider reviewing these issues for optimal quality.'' Warn
                   (log e non_critical_banner Warn s)
               else
                 log e all_passed_banner Success s)
      in log e rule60 Info s)"

text \<open>
  The value \<^verbatim>\<open>JSON.stringify\<close> writes for \<^verbatim>\<open>this.results\<close>. A key whose value is
  \<^verbatim>\<open>undefined\<close> is left out, as \<^verbatim>\<open>JSON.stringify\<close> does.
\<close>

definition entry_json :: "suite_entry \<Rightarrow> json" where
  "entry_json x = JObj ([(''name'', JStr (entry_name x)),
                        (''success'', JBool (entry_success x)),
                        (''critical'', JBool (entry_critical x))]
                       @ (case entry_output x of None \<Rightarrow> [] | Some out \<Rightarrow> [(''output'', JStr out)]))"

definition results_json :: "results \<Rightarrow> json" where
  "results_json r = JObj [(''total'', JNum (total r)),
                         (''passed'', JNum (passed r)),
                         (''failed'', JNum (failed r)),
                         (''skipped'', JNum (skipped r)),
                         (''suites'', JArr (map entry_json (suites r)))]"

text \<open>\<^verbatim>\<open>process.env.NODE_ENV || 'production'\<close>: an unset and an empty variable are both falsy.\<close>

definition environment :: "env \<Rightarrow> string" where
  "environment e = (case node_env e of
       None \<Rightarrow> ''production''
     | Some v \<Rightarrow> if v = [] then ''production'' else v)"

text \<open>The object literal \<^verbatim>\<open>report\<close> of \<^verbatim>\<open>generateDetailedReport\<close>, as a function of the
  four values it is built from.\<close>

definition report :: "string \<Rightarrow> int \<Rightarrow> string \<Rightarrow> results \<Rightarrow> json" where
  "report timestamp duration environ res = JObj [
     (''timestamp'', JStr timestamp),
     (''duration'', JNum duration),
     (''environment'', JStr environ),
     (''results'', results_json res),
     (''summary'', JObj [
        (''totalSuites'', JNum (int (length (suites res)))),
        (''passedSuites'', JNum (int (length (filter entry_success (suites res))))),
        (''failedSuites'', JNum (int (length (filter (\<lambda>x. \<not> entry_success x) (suites res))))),
        (''criticalFailures'',
           JNum (int (length (filter (\<lambda>x. \<not> entry_success x \<and> entry_critical x)
                                (suites res)))))])]"

definition generateDetailedReport :: "env \<Rightarrow> runner \<Rightarrow> flow" where
  "generateDetailedReport e s =
     (let reportPath = path_join e [dirname e, ''test-results'', ''summary-report.json''];
          reportDir = path_dirname e reportPath
      in case (if \<not> existsSync e reportDir then mkdirSync_error e reportDir else None) of
           Some err \<Rightarrow> Thrown err s
         | None \<Rightarrow>
            (let s1 = (if \<not> existsSync e reportDir then s\<lparr>mkdirs := mkdirs s @ [reportDir]\<rparr> else s);
                 timestamp = toISOString e (now e (clock_reads s1));
                 duration = round_seconds (now e (Suc (clock_reads s1)) - startTime s1);
                 s2 = s1\<lparr>clock_reads := Suc (Suc (clock_reads s1))\<rparr>;
                 rep = report timestamp duration (environment e) (results s2)
             in case writeFileSync_error e reportPath of
                  Some err \<Rightarrow> Thrown err s2
                | None \<Rightarrow>
                    Done (log e (page @ '' Detailed report saved to: '' @ reportPath) Info
                            (s2\<lparr>writes := writes s2 @ [(reportPath, rep)]\<rparr>))))"

definition runAllTests :: "env \<Rightarrow> runner \<Rightarrow> flow" where
  "runAllTests e s =
     (let s = log e (rocket @ '' Starting LI.FI QA Automation Test Suite'') Info s;
          s = log e rule60 Info s;
          (criticalFailures, totalFailures, s) = run_suites e testSuites (0, 0, s);
          s = generateSummaryReport e criticalFailures totalFailures s
      in generateDetailedReport e s)"

text \<open>
  In \<^verbatim>\<open>checkPrerequisites\<close> the second \<^verbatim>\<open>try\<close> block calls only \<^verbatim>\<open>path.join\<close> on
  strings, \<^verbatim>\<open>fs.existsSync\<close> and \<^verbatim>\<open>log\<close>, none of which throws, so its \<^verbatim>\<open>catch\<close> branch
  has no path to it.
\<close>

definition checkPrerequisites :: "env \<Rightarrow> runner \<Rightarrow> flow" where
  "checkPrerequisites e s =
     (let s = log e (magnifier @ '' Checking prerequisites...'') Info s;
          (r, s) = execSync e ''npx playwright --version''
                     \<lparr>encoding = None, stdio = ''pipe'', timeout = None\<rparr> s
      in case r of
           Failed err \<Rightarrow>
             Exited 1 (log e (cross_mark @ '' Playwright not found. Run: npm install'') Error s)
         | Returned out \<Rightarrow>
            (let s = log e (check_mark @ '' Playwright is installed'') Success s;
                 browsersPath = path_join e [dirname e, ''node_modules'', ''@playwright'', ''test''];
                 s = (if existsSync e browsersPath
                      then log e (check_mark @ '' Playwright browsers are available'') Success s
                      else log e (warning_sign @
                        ''  Playwright browsers may not be installed. Run: npx playwright install'')
                        Warn s);
                 (r, s) = execSync e ''ping -c 1 li.fi''
                            \<lparr>encoding = None, stdio = ''pipe'', timeout = Some 5000\<rparr> s
             in case r of
                  Returned out \<Rightarrow>
                    Done (log e (check_mark @ '' Network connectivity to li.fi confirmed'') Success s)
                | Failed err \<Rightarrow>
                    Done (log e (warning_sign @ ''  Network connectivity issue detected'') Warn s)))"

subsection \<open>The command line\<close>

text \<open>\<^verbatim>\<open>args.indexOf(x)\<close>: the first position of \<open>x\<close>, or -1.\<close>

fun indexOf_from :: "int \<Rightarrow> string list \<Rightarrow> string \<Rightarrow> int" where
  "indexOf_from i [] x = - 1"
| "indexOf_from i (a # as) x = (if a = x then i else indexOf_from (i + 1) as x)"

definition indexOf :: "string list \<Rightarrow> string \<Rightarrow> int" where
  "indexOf as x = indexOf_from 0 as x"

text \<open>\<^verbatim>\<open>args[i]\<close>: \<^verbatim>\<open>undefined\<close> outside the array.\<close>

definition at_index :: "string list \<Rightarrow> int \<Rightarrow> string option" where
  "at_index as i = (if 0 \<le> i \<and> i < int (length as) then Some (as ! nat i) else None)"

text \<open>\<^verbatim>\<open>undefined\<close> and the empty string are falsy, every other string is truthy.\<close>

definition truthy :: "string option \<Rightarrow> bool" where
  "truthy v = (case v of None \<Rightarrow> False | Some x \<Rightarrow> x \<noteq> [])"

definition array_includes :: "string list \<Rightarrow> string \<Rightarrow> bool" where
  "array_includes as x = (x \<in> set as)"

definition main :: "env \<Rightarrow> string list \<Rightarrow> flow" where
  "main e args =
     (let runner = constructor e
      in if array_includes args ''--help'' \<or> array_includes args ''-h'' then
           Done (runner\<lparr>console := console runner @ [Plain usage]\<rparr>)
         else if array_includes args ''--check-prereq'' then
           checkPrerequisites e runner
         else
           let suiteIndex = indexOf args ''--suite''
           in if suiteIndex \<noteq> - 1 \<and> truthy (at_index args (suiteIndex + 1)) then
                (let suiteName = the (at_index args (suiteIndex + 1));
                     c = ''npx playwright test --grep \"@'' @ suiteName @ ''\"''
                 in Done (snd (runTestSuite e (suiteName @ '' tests'') c runner)))
              else if array_includes args ''--quick'' then
                (let s = log e (running_man @ '' Running quick test suite (smoke + API tests)'')
                           Info runner;
                     s = snd (runTestSuite e ''Smoke Tests''
                                ''npx playwright test --grep \"@smoke\"'' s);
                     s = snd (runTestSuite e ''API Tests''
                                ''npx playwright test --grep \"@api\"'' s)
                 in Done s)
              else
                (case checkPrerequisites e runner of
                   Done s \<Rightarrow> runAllTests e s
                 | Exited c s \<Rightarrow> Exited c s
                 | Thrown err s \<Rightarrow> Thrown err s))"

text \<open>
  The process, run as a script on the arguments after the script's name. When \<^verbatim>\<open>main\<close>
  returns nothing is left to do and the process ends with exit code 0; an exit inside
  \<^verbatim>\<open>main\<close> ends it with that code; an error thrown out of \<^verbatim>\<open>main\<close> is caught by the
  handler at the bottom of the script, which prints it and exits with code 1. Nothing is
  thrown outside \<^verbatim>\<open>main\<close>, so the two handlers installed on \<^verbatim>\<open>process\<close> have nothing to
  catch.
\<close>

definition run :: "env \<Rightarrow> string list \<Rightarrow> int \<times> runner" where
  "run e args = (case main e args of
       Done s \<Rightarrow> (0, s)
     | Exited c s \<Rightarrow> (c, s)
     | Thrown err s \<Rightarrow>
         (1, s\<lparr>console := console s @
                  [Stderr (CHR 0x1B # ''[31m'' @ cross_mark @ '' Test runner failed: '' @ err
                           @ '' '' @ CHR 0x1B # ''[0m'')]\<rparr>))"

section \<open>Observations on a run\<close>

text \<open>
  The definitions from here on are not code of the runner. They name what the properties
  below speak about: how a flow ends, what a call of \<^verbatim>\<open>execSync\<close> did, which calls are
  category invocations, and what stands in a written report.
\<close>

fun final_state :: "flow \<Rightarrow> runner" where
  "final_state (Done s) = s"
| "final_state (Exited c s) = s"
| "final_state (Thrown err s) = s"

fun exit_code :: "flow \<Rightarrow> int" where
  "exit_code (Done s) = 0"
| "exit_code (Exited c s) = c"
| "exit_code (Thrown err s) = 1"

definition is_returned :: "exec_result \<Rightarrow> bool" where
  "is_returned r = (case r of Returned out \<Rightarrow> True | Failed err \<Rightarrow> False)"

text \<open>
  The two commands of \<^verbatim>\<open>checkPrerequisites\<close> with their options, as they stand in the
  source, and whether the world lets them succeed.
\<close>

definition version_options :: exec_options where
  "version_options = \<lparr>encoding = None, stdio = ''pipe'', timeout = None\<rparr>"

definition ping_options :: exec_options where
  "ping_options = \<lparr>encoding = None, stdio = ''pipe'', timeout = Some 5000\<rparr>"

definition tool_ok :: "env \<Rightarrow> bool" where
  "tool_ok e = is_returned (execSync_result e ''npx playwright --version'' version_options)"

definition network_ok :: "env \<Rightarrow> bool" where
  "network_ok e = is_returned (execSync_result e ''ping -c 1 li.fi'' ping_options)"

definition version_call :: "env \<Rightarrow> exec_call" where
  "version_call e = \<lparr>cmd = ''npx playwright --version'', opts = version_options,
     outcome = execSync_result e ''npx playwright --version'' version_options\<rparr>"

definition ping_call :: "env \<Rightarrow> exec_call" where
  "ping_call e = \<lparr>cmd = ''ping -c 1 li.fi'', opts = ping_options,
     outcome = execSync_result e ''ping -c 1 li.fi'' ping_options\<rparr>"

text \<open>
  What the loop of \<^verbatim>\<open>runAllTests\<close> does with one element of \<^verbatim>\<open>testSuites\<close>: the call it
  makes and the entry it pushes.
\<close>

definition category_call :: "env \<Rightarrow> test_suite \<Rightarrow> exec_call" where
  "category_call e suite =
     \<lparr>cmd = command suite, opts = suite_options,
      outcome = execSync_result e (command suite) suite_options\<rparr>"

definition entry_of :: "env \<Rightarrow> test_suite \<Rightarrow> suite_entry" where
  "entry_of e suite =
     \<lparr>entry_name = name suite,
      entry_success = is_returned (execSync_result e (command suite) suite_options),
      entry_critical = critical suite,
      entry_output = (case execSync_result e (command suite) suite_options of
                        Returned out \<Rightarrow> Some out | Failed err \<Rightarrow> stdout err)\<rparr>"

text \<open>
  The path of the report, and the error that stops \<^verbatim>\<open>generateDetailedReport\<close>, if any:
  that of \<^verbatim>\<open>mkdirSync\<close> when the directory is missing, else that of \<^verbatim>\<open>writeFileSync\<close>.
\<close>

definition report_path :: "env \<Rightarrow> string" where
  "report_path e = path_join e [dirname e, ''test-results'', ''summary-report.json'']"

definition report_dir :: "env \<Rightarrow> string" where
  "report_dir e = path_dirname e (report_path e)"

definition report_error :: "env \<Rightarrow> string option" where
  "report_error e =
     (case (if \<not> existsSync e (report_dir e) then mkdirSync_error e (report_dir e) else None) of
        Some err \<Rightarrow> Some err
      | None \<Rightarrow> writeFileSync_error e (report_path e))"

text \<open>
  A category invocation is a call of \<^verbatim>\<open>execSync\<close> on a command that starts with
  \<^verbatim>\<open>npx playwright test\<close>. Every call \<^verbatim>\<open>runTestSuite\<close> is given in this program is one,
  and neither command of \<^verbatim>\<open>checkPrerequisites\<close> is.
\<close>

definition is_category_invocation :: "exec_call \<Rightarrow> bool" where
  "is_category_invocation c = (take 19 (cmd c) = ''npx playwright test'')"

definition categories_invoked :: "runner \<Rightarrow> exec_call list" where
  "categories_invoked s = filter is_category_invocation (execs s)"

text \<open>
  The tag filter of a command: the text inside the double quotes that follow \<^verbatim>\<open>--grep\<close>.
  \<open>occurs_in p s\<close> says that the text \<open>p\<close> stands somewhere in \<open>s\<close>.
\<close>

fun find_after :: "string \<Rightarrow> string \<Rightarrow> string option" where
  "find_after p [] = (if p = [] then Some [] else None)"
| "find_after p (c # cs) =
     (if take (length p) (c # cs) = p then Some (drop (length p) (c # cs)) else find_after p cs)"

definition grep_filter :: "string \<Rightarrow> string option" where
  "grep_filter c = map_option (takeWhile (\<lambda>x. x \<noteq> CHR 0x22)) (find_after ''--grep \"'' c)"

fun occurs_in :: "string \<Rightarrow> string \<Rightarrow> bool" where
  "occurs_in p [] = (p = [])"
| "occurs_in p (c # cs) = (take (length p) (c # cs) = p \<or> occurs_in p cs)"

text \<open>
  The tests of the accessibility category, from \<^verbatim>\<open>tests/accessibility.spec.js\<close>: the title of
  its one \<^verbatim>\<open>test.describe\<close> block, the titles of the nine tests inside it, and the full title
  of each test, the two joined by a space.
\<close>

definition accessibility_describe :: string where
  "accessibility_describe = ''Accessibility Tests @a11y''"

definition accessibility_tests :: "string list" where
  "accessibility_tests = [
     ''should have proper heading hierarchy @smoke'',
     ''should have proper alt text for images'',
     ''should have proper form labels and accessibility'',
     ''should support keyboard navigation'',
     ''should have sufficient color contrast'',
     ''should have proper ARIA attributes'',
     ''should be usable with screen reader simulation'',
     ''should handle focus management in modals'',
     ''should have proper page title and meta information'']"

definition accessibility_titles :: "string list" where
  "accessibility_titles = map (\<lambda>t. accessibility_describe @ '' '' @ t) accessibility_tests"

text \<open>
Reading a written report: a key of an object, a path of keys, and the array
  \<^verbatim>\<open>results.suites\<close>.
\<close>

fun json_field :: "string \<Rightarrow> json \<Rightarrow> json option" where
  "json_field k (JObj kvs) = map_of kvs k"
| "json_field k j = None"

fun json_at :: "string list \<Rightarrow> json \<Rightarrow> json option" where
  "json_at [] j = Some j"
| "json_at (k # ks) j = (case json_field k j of None \<Rightarrow> None | Some v \<Rightarrow> json_at ks v)"

declare json_at.simps [simp del]

definition persisted_suites :: "json \<Rightarrow> json list" where
  "persisted_suites rep =
     (case json_at [''results'', ''suites''] rep of Some (JArr xs) \<Rightarrow> xs | _ \<Rightarrow> [])"

text \<open>
  The number of clock readings a full run has taken when \<^verbatim>\<open>generateDetailedReport\<close> builds the
  report (the summary prints one line more when a suite failed), and the report it builds.
\<close>

definition full_run_reads :: "env \<Rightarrow> nat" where
  "full_run_reads e =
     (if \<exists>x \<in> set (map (entry_of e) testSuites). \<not> entry_success x then 31 else 30)"

definition full_run_report :: "env \<Rightarrow> json" where
  "full_run_report e =
     report (toISOString e (now e (full_run_reads e)))
            (round_seconds (now e (Suc (full_run_reads e)) - now e 0))
            (environment e)
            \<lparr>total = 0, passed = 0, failed = 0, skipped = 0,
             suites = map (entry_of e) testSuites\<rparr>"

subsection \<open>The classification of a run\<close>

text \<open>
  The rule of the specification, on the list of results: if any critical category failed the
  run is a critical failure; else if any category failed it is a non-critical failure; else
  all pass.
\<close>

datatype classification = AllPass | NonCriticalFailure | CriticalFailure

definition spec_classification :: "suite_entry list \<Rightarrow> classification" where
  "spec_classification xs =
     (if \<exists>x \<in> set xs. entry_critical x \<and> \<not> entry_success x then CriticalFailure
      else if \<exists>x \<in> set xs. \<not> entry_success x then NonCriticalFailure
      else AllPass)"

text \<open>
  What the console says: each of the three closing messages of \<^verbatim>\<open>generateSummaryReport\<close>
  stands for one classification, and \<open>reported\<close> collects those a console holds, in order.
\<close>

definition banner :: "console_line \<Rightarrow> classification option" where
  "banner l = (case l of
       Logged t timestamp msg \<Rightarrow>
         if t = Error \<and> msg = critical_banner then Some CriticalFailure
         else if t = Warn \<and> msg = non_critical_banner then Some NonCriticalFailure
         else if t = Success \<and> msg = all_passed_banner then Some AllPass
         else None
     | Plain text \<Rightarrow> None
     | Stderr text \<Rightarrow> None)"

fun reported :: "console_line list \<Rightarrow> classification list" where
  "reported [] = []"
| "reported (l # ls) = (case banner l of None \<Rightarrow> reported ls | Some c \<Rightarrow> c # reported ls)"

subsection \<open>Four worlds\<close>

text \<open>
  A world where every command succeeds and no file operation fails, and three variants of it:
  the smoke suite exits with a non-zero status; the end-to-end suite runs into the timeout; the
  network target does not answer.
\<close>

definition env_all_pass :: env where
  "env_all_pass = \<lparr>
     execSync_result = (\<lambda>c os. Returned ''{}''),
     now = (\<lambda>n. 1000 * int n),
     toISOString = show_int,
     dirname = ''/repo'',
     node_env = None,
     path_join = (\<lambda>ps. case ps of [] \<Rightarrow> ''.'' | p # qs \<Rightarrow> foldl (\<lambda>a b. a @ ''/'' @ b) p qs),
     path_dirname = (\<lambda>p. rev (tl (dropWhile (\<lambda>c. c \<noteq> CHR ''/'') (rev p)))),
     existsSync = (\<lambda>p. False),
     mkdirSync_error = (\<lambda>p. None),
     writeFileSync_error = (\<lambda>p. None)\<rparr>"

definition env_smoke_fails :: env where
  "env_smoke_fails = env_all_pass\<lparr>execSync_result := (\<lambda>c os.
     if c = ''npx playwright test --grep \"@smoke\" --reporter=json''
     then Failed \<lparr>kind = NonZeroExit, message = ''Command failed'', stdout = Some ''{}''\<rparr>
     else Returned ''{}'')\<rparr>"

definition env_e2e_timeout :: env where
  "env_e2e_timeout = env_all_pass\<lparr>execSync_result := (\<lambda>c os.
     if c = ''npx playwright test --grep \"@e2e\" --reporter=json''
     then Failed \<lparr>kind = TimedOut, message = ''spawnSync /bin/sh ETIMEDOUT'', stdout = Some []\<rparr>
     else Returned ''{}'')\<rparr>"

definition env_network_down :: env where
  "env_network_down = env_all_pass\<lparr>execSync_result := (\<lambda>c os.
     if c = ''ping -c 1 li.fi''
     then Failed \<lparr>kind = NonZeroExit, message = ''Command failed: ping -c 1 li.fi'', stdout = Some []\<rparr>
     else Returned ''{}'')\<rparr>"

text \<open>
The report the runner writes in the world where the smoke suite fails.
\<close>

definition report_smoke_fails :: json where
  "report_smoke_fails = JObj
    [(''timestamp'', JStr ''31000''), (''duration'', JNum 32),
     (''environment'', JStr ''production''),
     (''results'',
      JObj
       [(''total'', JNum 0), (''passed'', JNum 0), (''failed'', JNum 0),
        (''skipped'', JNum 0),
        (''suites'',
         JArr
          [JObj
            [(''name'', JStr ''Smoke Tests''), (''success'', JBool False),
             (''critical'', JBool True), (''output'', JStr ''{}'')],
           JObj
            [(''name'', JStr ''API Tests''), (''success'', JBool True),
             (''critical'', JBool True), (''output'', JStr ''{}'')],
           JObj
            [(''name'', JStr ''E2E Tests''), (''success'', JBool True),
             (''critical'', JBool False), (''output'', JStr ''{}'')],
           JObj
            [(''name'', JStr ''Performance Tests''),
             (''success'', JBool True), (''critical'', JBool False),
             (''output'', JStr ''{}'')],
           JObj
            [(''name'', JStr ''Accessibility Tests''),
             (''success'', JBool True), (''critical'', JBool False),
             (''output'', JStr ''{}'')],
           JObj
            [(''name'', JStr ''Security Tests''), (''success'', JBool True),
             (''critical'', JBool False), (''output'', JStr ''{}'')]])]),
     (''summary'',
      JObj
       [(''totalSuites'', JNum 6), (''passedSuites'', JNum 5),
        (''failedSuites'', JNum 1), (''criticalFailures'', JNum 1)])]"

section \<open>Properties\<close>

subsection \<open>The methods, one by one\<close>

lemma reported_append: "reported (xs @ ys) = reported xs @ reported ys"
  by (induction xs) (simp_all split: option.splits)

lemma log_fields [simp]:
  "startTime (log e m t s) = startTime s"
  "results (log e m t s) = results s"
  "execs (log e m t s) = execs s"
  "mkdirs (log e m t s) = mkdirs s"
  "writes (log e m t s) = writes s"
  "clock_reads (log e m t s) = Suc (clock_reads s)"
  "console (log e m t s) = console s @ [Logged t (toISOString e (now e (clock_reads s))) m]"
  by (simp_all add: log_def Let_def)

lemmas banner_defs = banner_def critical_banner_def non_critical_banner_def
  all_passed_banner_def warning_sign_def party_popper_def

lemma banner_first_char [simp]:
  "c \<noteq> CHR 0xE2 \<Longrightarrow> c \<noteq> CHR 0xF0 \<Longrightarrow> banner (Logged t ts (c # x)) = None"
  by (simp add: banner_defs)

lemma banner_nil [simp]: "banner (Logged t ts []) = None"
  by (simp add: banner_defs)

lemma banner_emoji [simp]:
  "banner (Logged t ts (check_mark @ x)) = None"
  "banner (Logged t ts (cross_mark @ x)) = None"
  "banner (Logged t ts (rocket @ x)) = None"
  "banner (Logged t ts (bar_chart @ x)) = None"
  "banner (Logged t ts (stopwatch @ x)) = None"
  "banner (Logged t ts (clipboard @ x)) = None"
  "banner (Logged t ts (siren @ x)) = None"
  "banner (Logged t ts (page @ x)) = None"
  "banner (Logged t ts (magnifier @ x)) = None"
  "banner (Logged t ts (running_man @ x)) = None"
  by (simp_all add: banner_defs check_mark_def cross_mark_def rocket_def bar_chart_def
      stopwatch_def clipboard_def siren_def page_def magnifier_def running_man_def)

lemma banner_rule60 [simp]: "banner (Logged t ts rule60) = None"
proof -
  have h: "rule60 = CHR ''='' # replicate 59 CHR ''=''"
    by (simp add: rule60_def numeral_eq_Suc)
  show ?thesis by (subst h) simp
qed

lemma banner_playwright_warning [simp]:
  "banner (Logged t ts (warning_sign @
     ''  Playwright browsers may not be installed. Run: npx playwright install'')) = None"
  "banner (Logged t ts (warning_sign @ ''  Network connectivity issue detected'')) = None"
  by (simp_all add: banner_defs)

lemma banner_banners [simp]:
  "banner (Logged Error ts critical_banner) = Some CriticalFailure"
  "banner (Logged Warn ts non_critical_banner) = Some NonCriticalFailure"
  "banner (Logged Success ts all_passed_banner) = Some AllPass"
  by (simp_all add: banner_defs)

lemma runTestSuite_result:
  "fst (runTestSuite e n c s) =
     \<lparr>success = is_returned (execSync_result e c suite_options),
      error = (case execSync_result e c suite_options of
                 Returned out \<Rightarrow> None | Failed err \<Rightarrow> Some (message err)),
      output' = (case execSync_result e c suite_options of
                        Returned out \<Rightarrow> Some out | Failed err \<Rightarrow> stdout err)\<rparr>"
  by (simp add: runTestSuite_def execSync_def Let_def is_returned_def split: exec_result.splits)

lemma runTestSuite_fields [simp]:
  "startTime (snd (runTestSuite e n c s)) = startTime s"
  "results (snd (runTestSuite e n c s)) = results s"
  "mkdirs (snd (runTestSuite e n c s)) = mkdirs s"
  "writes (snd (runTestSuite e n c s)) = writes s"
  "execs (snd (runTestSuite e n c s)) =
     execs s @ [\<lparr>cmd = c, opts = suite_options, outcome = execSync_result e c suite_options\<rparr>]"
  by (simp_all add: runTestSuite_def execSync_def Let_def split: exec_result.splits)

lemma runTestSuite_reads [simp]:
  "clock_reads (snd (runTestSuite e n c s)) = clock_reads s + 2"
  by (simp add: runTestSuite_def execSync_def Let_def split: exec_result.splits)

lemma runTestSuite_reported [simp]:
  "reported (console (snd (runTestSuite e n c s))) = reported (console s)"
  by (simp add: runTestSuite_def execSync_def Let_def reported_append split: exec_result.splits)

lemma suite_step_eq:
  "suite_step e suite (cf, tf, s) =
     (cf + (if \<not> entry_success (entry_of e suite) \<and> entry_critical (entry_of e suite) then 1 else 0),
      tf + (if \<not> entry_success (entry_of e suite) then 1 else 0),
      (snd (runTestSuite e (name suite) (command suite) s))
        \<lparr>results := (results s)\<lparr>suites := suites (results s) @ [entry_of e suite]\<rparr>\<rparr>)"
  by (simp add: suite_step_def Let_def split_beta runTestSuite_result entry_of_def)

text \<open>
The loop, by induction on the list of suites, with the counters and the runner
  generalised.
\<close>

lemma run_suites_counters:
  "fst (run_suites e xs (cf, tf, s)) =
     cf + length (filter (\<lambda>x. \<not> entry_success x \<and> entry_critical x) (map (entry_of e) xs))"
  "fst (snd (run_suites e xs (cf, tf, s))) =
     tf + length (filter (\<lambda>x. \<not> entry_success x) (map (entry_of e) xs))"
  by (induction xs arbitrary: cf tf s; simp add: suite_step_eq)+

lemma run_suites_fields:
  "startTime (snd (snd (run_suites e xs (cf, tf, s)))) = startTime s"
  "mkdirs (snd (snd (run_suites e xs (cf, tf, s)))) = mkdirs s"
  "writes (snd (snd (run_suites e xs (cf, tf, s)))) = writes s"
  "reported (console (snd (snd (run_suites e xs (cf, tf, s))))) = reported (console s)"
  by (induction xs arbitrary: cf tf s; simp add: suite_step_eq)+

lemma run_suites_results:
  "results (snd (snd (run_suites e xs (cf, tf, s)))) =
     (results s)\<lparr>suites := suites (results s) @ map (entry_of e) xs\<rparr>"
  by (induction xs arbitrary: cf tf s) (simp_all add: suite_step_eq)

lemma run_suites_execs:
  "execs (snd (snd (run_suites e xs (cf, tf, s)))) = execs s @ map (category_call e) xs"
  by (induction xs arbitrary: cf tf s) (simp_all add: suite_step_eq category_call_def)

lemma run_suites_reads:
  "clock_reads (snd (snd (run_suites e xs (cf, tf, s)))) = clock_reads s + 2 * length xs"
  by (induction xs arbitrary: cf tf s) (simp_all add: suite_step_eq)

lemma run_suites_append:
  "run_suites e (xs @ ys) st = run_suites e ys (run_suites e xs st)"
  by (induction xs arbitrary: st) simp_all

lemma length_filter_mono:
  "(\<And>x. P x \<Longrightarrow> Q x) \<Longrightarrow> length (filter P xs) \<le> length (filter Q xs)"
  by (induction xs) auto

lemma generateSummaryReport_fields [simp]:
  "startTime (generateSummaryReport e cf tf s) = startTime s"
  "results (generateSummaryReport e cf tf s) = results s"
  "execs (generateSummaryReport e cf tf s) = execs s"
  "mkdirs (generateSummaryReport e cf tf s) = mkdirs s"
  "writes (generateSummaryReport e cf tf s) = writes s"
  by (simp_all add: generateSummaryReport_def Let_def)

lemma generateSummaryReport_reads:
  "clock_reads (generateSummaryReport e cf tf s) =
     clock_reads s + (if 0 < cf \<or> 0 < tf then 12 else 11)"
  by (simp add: generateSummaryReport_def Let_def)

lemma generateSummaryReport_reported:
  "reported (console (generateSummaryReport e cf tf s)) =
     reported (console s) @
       [if cf > 0 then CriticalFailure else if tf > 0 then NonCriticalFailure else AllPass]"
  by (simp add: generateSummaryReport_def Let_def reported_append)

lemma generateDetailedReport_exit:
  "exit_code (generateDetailedReport e s) = (if report_error e = None then 0 else 1)"
  by (simp add: generateDetailedReport_def Let_def report_error_def report_dir_def report_path_def
      split: option.splits)

lemma generateDetailedReport_fields [simp]:
  "startTime (final_state (generateDetailedReport e s)) = startTime s"
  "results (final_state (generateDetailedReport e s)) = results s"
  "execs (final_state (generateDetailedReport e s)) = execs s"
  by (simp_all add: generateDetailedReport_def Let_def split: option.splits)

lemma generateDetailedReport_reported [simp]:
  "reported (console (final_state (generateDetailedReport e s))) = reported (console s)"
  by (simp add: generateDetailedReport_def Let_def reported_append split: option.splits)

lemma generateDetailedReport_writes:
  "writes (final_state (generateDetailedReport e s)) =
     (if report_error e = None
      then writes s @ [(report_path e,
             report (toISOString e (now e (clock_reads s)))
                    (round_seconds (now e (Suc (clock_reads s)) - startTime s))
                    (environment e) (results s))]
      else writes s)"
  by (simp add: generateDetailedReport_def Let_def report_error_def report_dir_def report_path_def
      split: option.splits)

lemma checkPrerequisites_flow:
  "checkPrerequisites e s =
     (if tool_ok e then Done (final_state (checkPrerequisites e s))
      else Exited 1 (final_state (checkPrerequisites e s)))"
  by (simp add: checkPrerequisites_def execSync_def Let_def tool_ok_def is_returned_def
      version_options_def split: exec_result.splits)

lemma checkPrerequisites_cases:
  obtains s' where "tool_ok e" and "checkPrerequisites e s = Done s'"
  | s' where "\<not> tool_ok e" and "checkPrerequisites e s = Exited 1 s'"
  using checkPrerequisites_flow [of e s] by (cases "tool_ok e") auto

lemma checkPrerequisites_fields [simp]:
  "startTime (final_state (checkPrerequisites e s)) = startTime s"
  "results (final_state (checkPrerequisites e s)) = results s"
  "mkdirs (final_state (checkPrerequisites e s)) = mkdirs s"
  "writes (final_state (checkPrerequisites e s)) = writes s"
  by (simp_all add: checkPrerequisites_def execSync_def Let_def split: exec_result.splits)

lemma checkPrerequisites_reads:
  "clock_reads (final_state (checkPrerequisites e s)) =
     clock_reads s + (if tool_ok e then 4 else 2)"
  by (simp add: checkPrerequisites_def execSync_def Let_def tool_ok_def is_returned_def
      version_options_def split: exec_result.splits)

lemma checkPrerequisites_reported [simp]:
  "reported (console (final_state (checkPrerequisites e s))) = reported (console s)"
  by (simp add: checkPrerequisites_def execSync_def Let_def reported_append
      split: exec_result.splits)

lemma checkPrerequisites_execs:
  "execs (final_state (checkPrerequisites e s)) =
     execs s @ (if tool_ok e then [version_call e, ping_call e] else [version_call e])"
  by (simp add: checkPrerequisites_def execSync_def Let_def tool_ok_def is_returned_def
      version_options_def ping_options_def version_call_def ping_call_def
      split: exec_result.splits)

lemma checkPrerequisites_exit:
  "exit_code (checkPrerequisites e s) = (if tool_ok e then 0 else 1)"
  by (rule checkPrerequisites_cases [of e s]) simp_all

lemma checkPrerequisites_last:
  "tool_ok e \<Longrightarrow> \<not> network_ok e \<Longrightarrow>
     \<exists>ts. last (console (final_state (checkPrerequisites e s)))
            = Logged Warn ts (warning_sign @ ''  Network connectivity issue detected'')"
  by (simp add: checkPrerequisites_def execSync_def Let_def tool_ok_def network_ok_def
      is_returned_def version_options_def ping_options_def split: exec_result.splits)

subsection \<open>The command line\<close>

lemma constructor_fields [simp]:
  "results (constructor e) = \<lparr>total = 0, passed = 0, failed = 0, skipped = 0, suites = []\<rparr>"
  "console (constructor e) = []"
  "execs (constructor e) = []"
  "mkdirs (constructor e) = []"
  "writes (constructor e) = []"
  by (simp_all add: constructor_def)

lemma constructor_more [simp]:
  "clock_reads (constructor e) = 1"
  "startTime (constructor e) = now e 0"
  by (simp_all add: constructor_def)

lemma main_nil:
  "main e [] =
     (if tool_ok e then runAllTests e (final_state (checkPrerequisites e (constructor e)))
      else Exited 1 (final_state (checkPrerequisites e (constructor e))))"
proof -
  have m: "main e [] = (case checkPrerequisites e (constructor e) of
            Done s \<Rightarrow> runAllTests e s
          | Exited c s \<Rightarrow> Exited c s
          | Thrown err s \<Rightarrow> Thrown err s)"
    by (simp add: main_def array_includes_def indexOf_def Let_def)
  show ?thesis
    by (rule checkPrerequisites_cases [of e "constructor e"]) (simp_all add: m)
qed

lemma main_suite:
  assumes "nm \<noteq> []" and "nm \<noteq> ''--help''" and "nm \<noteq> ''-h''" and "nm \<noteq> ''--check-prereq''"
  shows "main e [''--suite'', nm] =
     Done (snd (runTestSuite e (nm @ '' tests'')
                  (''npx playwright test --grep \"@'' @ nm @ ''\"'') (constructor e)))"
  using assms
  by (simp add: main_def array_includes_def indexOf_def at_index_def truthy_def Let_def)

lemma main_quick:
  "main e [''--quick''] =
     Done (snd (runTestSuite e ''API Tests'' ''npx playwright test --grep \"@api\"''
            (snd (runTestSuite e ''Smoke Tests'' ''npx playwright test --grep \"@smoke\"''
               (log e (running_man @ '' Running quick test suite (smoke + API tests)'') Info
                  (constructor e))))))"
  by (simp add: main_def array_includes_def indexOf_def at_index_def truthy_def Let_def)

lemma main_check_prereq:
  "main e [''--check-prereq''] = checkPrerequisites e (constructor e)"
  by (simp add: main_def array_includes_def)

lemma runAllTests_eq:
  "runAllTests e s =
     generateDetailedReport e
       (generateSummaryReport e
          (fst (run_suites e testSuites (0, 0,
             log e rule60 Info (log e (rocket @ '' Starting LI.FI QA Automation Test Suite'') Info s))))
          (fst (snd (run_suites e testSuites (0, 0,
             log e rule60 Info (log e (rocket @ '' Starting LI.FI QA Automation Test Suite'') Info s)))))
          (snd (snd (run_suites e testSuites (0, 0,
             log e rule60 Info (log e (rocket @ '' Starting LI.FI QA Automation Test Suite'') Info s))))))"
  by (simp add: runAllTests_def Let_def split_beta)

lemma run_fields [simp]:
  "fst (run e args) = exit_code (main e args)"
  "results (snd (run e args)) = results (final_state (main e args))"
  "execs (snd (run e args)) = execs (final_state (main e args))"
  "writes (snd (run e args)) = writes (final_state (main e args))"
  "mkdirs (snd (run e args)) = mkdirs (final_state (main e args))"
  "reported (console (snd (run e args))) = reported (console (final_state (main e args)))"
  by (simp_all add: run_def reported_append banner_def split: flow.splits)

lemma categories_invoked_run [simp]:
  "categories_invoked (snd (run e args)) = categories_invoked (final_state (main e args))"
  by (simp add: categories_invoked_def)

text \<open>
The tag filters of the six categories, of the accessibility tests, and of the command
  that \<^verbatim>\<open>--suite\<close> runs for the five other names of the usage text.
\<close>

lemma suite_filters:
  "map (\<lambda>t. (name t, grep_filter (command t))) testSuites =
     [(''Smoke Tests'', Some ''@smoke''), (''API Tests'', Some ''@api''),
      (''E2E Tests'', Some ''@e2e''), (''Performance Tests'', Some ''@performance''),
      (''Accessibility Tests'', Some ''@a11y''), (''Security Tests'', Some ''@security'')]"
  by (simp add: testSuites_def grep_filter_def)

lemma titles_a11y:
  "filter (occurs_in ''@a11y'') accessibility_titles = accessibility_titles"
  by (simp add: accessibility_titles_def accessibility_tests_def accessibility_describe_def)

lemma titles_accessibility:
  "filter (occurs_in ''@accessibility'') accessibility_titles = []"
  by (simp add: accessibility_titles_def accessibility_tests_def accessibility_describe_def)

lemma suite_selector_tags:
  "map (\<lambda>nm. map (\<lambda>c. grep_filter (cmd c)) (execs (snd (run e [''--suite'', nm]))))
       [''smoke'', ''api'', ''e2e'', ''performance'', ''security'']
     = [[Some ''@smoke''], [Some ''@api''], [Some ''@e2e''], [Some ''@performance''],
        [Some ''@security'']]"
  by (simp add: main_suite grep_filter_def)

subsection \<open>The full run\<close>

lemma full_results:
  "tool_ok e \<Longrightarrow> results (final_state (main e [])) =
     \<lparr>total = 0, passed = 0, failed = 0, skipped = 0, suites = map (entry_of e) testSuites\<rparr>"
  by (simp add: main_nil runAllTests_eq run_suites_results)

lemma full_execs:
  "execs (final_state (main e [])) =
     (if tool_ok e then [version_call e, ping_call e] @ map (category_call e) testSuites
      else [version_call e])"
  by (simp add: main_nil runAllTests_eq run_suites_execs checkPrerequisites_execs)

lemma full_exit_code:
  "exit_code (main e []) = (if tool_ok e \<and> report_error e = None then 0 else 1)"
  by (simp add: main_nil runAllTests_eq generateDetailedReport_exit)

lemma classification_of_counts:
  "(if 0 < length (filter (\<lambda>x. \<not> entry_success x \<and> entry_critical x) xs) then CriticalFailure
    else if 0 < length (filter (\<lambda>x. \<not> entry_success x) xs) then NonCriticalFailure
    else AllPass) = spec_classification xs"
  by (auto simp: spec_classification_def filter_empty_conv)

lemma full_reported:
  "tool_ok e \<Longrightarrow> reported (console (final_state (main e []))) =
     [spec_classification (map (entry_of e) testSuites)]"
proof -
  assume ok: "tool_ok e"
  let ?xs = "map (entry_of e) testSuites"
  have "reported (console (final_state (main e []))) =
      [if 0 < length (filter (\<lambda>x. \<not> entry_success x \<and> entry_critical x) ?xs)
       then CriticalFailure
       else if 0 < length (filter (\<lambda>x. \<not> entry_success x) ?xs) then NonCriticalFailure
       else AllPass]"
    using ok
    by (simp add: main_nil runAllTests_eq generateSummaryReport_reported run_suites_fields
        run_suites_counters reported_append)
  then show ?thesis
    by (simp only: classification_of_counts)
qed

lemma categories_of_suites:
  "set xs \<subseteq> set testSuites \<Longrightarrow> filter is_category_invocation (map (category_call e) xs)
     = map (category_call e) xs"
  by (rule filter_True) (auto simp: testSuites_def category_call_def is_category_invocation_def)

lemma prereq_not_category [simp]:
  "\<not> is_category_invocation (version_call e)"
  "\<not> is_category_invocation (ping_call e)"
  by (simp_all add: is_category_invocation_def version_call_def ping_call_def)

lemma full_categories:
  "categories_invoked (final_state (main e [])) =
     (if tool_ok e then map (category_call e) testSuites else [])"
  by (simp add: categories_invoked_def full_execs categories_of_suites)

lemma full_reads:
  assumes "tool_ok e"
  shows "clock_reads (generateSummaryReport e
          (fst (run_suites e testSuites (0, 0,
             log e rule60 Info (log e (rocket @ '' Starting LI.FI QA Automation Test Suite'') Info
               (final_state (checkPrerequisites e (constructor e)))))))
          (fst (snd (run_suites e testSuites (0, 0,
             log e rule60 Info (log e (rocket @ '' Starting LI.FI QA Automation Test Suite'') Info
               (final_state (checkPrerequisites e (constructor e))))))))
          (snd (snd (run_suites e testSuites (0, 0,
             log e rule60 Info (log e (rocket @ '' Starting LI.FI QA Automation Test Suite'') Info
               (final_state (checkPrerequisites e (constructor e))))))))) = full_run_reads e"
proof -
  let ?s0 = "log e rule60 Info (log e (rocket @ '' Starting LI.FI QA Automation Test Suite'') Info
               (final_state (checkPrerequisites e (constructor e))))"
  let ?st = "run_suites e testSuites (0, 0, ?s0)"
  let ?xs = "map (entry_of e) testSuites"
  have len: "length testSuites = 6" by (simp add: testSuites_def)
  have s': "clock_reads (snd (snd ?st)) = 19"
    using assms by (simp add: run_suites_reads checkPrerequisites_reads len)
  have cf: "fst ?st = length (filter (\<lambda>x. \<not> entry_success x \<and> entry_critical x) ?xs)"
    by (simp add: run_suites_counters)
  have tf: "fst (snd ?st) = length (filter (\<lambda>x. \<not> entry_success x) ?xs)"
    by (simp add: run_suites_counters)
  have cond: "(0 < length (filter (\<lambda>x. \<not> entry_success x \<and> entry_critical x) ?xs)
         \<or> 0 < length (filter (\<lambda>x. \<not> entry_success x) ?xs))
        = (\<exists>x \<in> set ?xs. \<not> entry_success x)"
    by (auto simp: filter_empty_conv)
  show ?thesis
    unfolding generateSummaryReport_reads s' cf tf cond full_run_reads_def by simp
qed

lemma full_writes_eq:
  "writes (final_state (main e [])) =
     (if tool_ok e \<and> report_error e = None then [(report_path e, full_run_report e)] else [])"
proof (cases "tool_ok e")
  case True
  show ?thesis
    using True
    by (simp add: main_nil runAllTests_eq generateDetailedReport_writes run_suites_results
        run_suites_fields full_reads full_run_report_def)
next
  case False
  then show ?thesis by (simp add: main_nil)
qed

subsection \<open>Reading the report\<close>

lemma json_at_Nil: "json_at [] j = Some j"
  by (simp add: json_at.simps)

lemma json_at_Cons:
  "json_at (k # ks) j = (case json_field k j of None \<Rightarrow> None | Some v \<Rightarrow> json_at ks v)"
  by (simp add: json_at.simps)

lemma report_summary [simp]:
  "json_at [''summary'', ''totalSuites''] (report ts d en res)
     = Some (JNum (int (length (suites res))))"
  "json_at [''summary'', ''passedSuites''] (report ts d en res)
     = Some (JNum (int (length (filter entry_success (suites res)))))"
  "json_at [''summary'', ''failedSuites''] (report ts d en res)
     = Some (JNum (int (length (filter (\<lambda>x. \<not> entry_success x) (suites res)))))"
  "json_at [''summary'', ''criticalFailures''] (report ts d en res)
     = Some (JNum (int (length (filter (\<lambda>x. \<not> entry_success x \<and> entry_critical x) (suites res)))))"
  by (simp_all add: report_def json_at_Nil json_at_Cons)

lemma report_results [simp]:
  "json_at [''results'', ''total''] (report ts d en res) = Some (JNum (total res))"
  "json_at [''results'', ''passed''] (report ts d en res) = Some (JNum (passed res))"
  "json_at [''results'', ''failed''] (report ts d en res) = Some (JNum (failed res))"
  "json_at [''results'', ''skipped''] (report ts d en res) = Some (JNum (skipped res))"
  "json_at [''results'', ''suites''] (report ts d en res)
     = Some (JArr (map entry_json (suites res)))"
  by (simp_all add: report_def results_json_def json_at_Nil json_at_Cons)

lemma entry_json_fields [simp]:
  "json_field ''name'' (entry_json x) = Some (JStr (entry_name x))"
  "json_field ''success'' (entry_json x) = Some (JBool (entry_success x))"
  "json_field ''critical'' (entry_json x) = Some (JBool (entry_critical x))"
  by (simp_all add: entry_json_def)

lemma persisted_report:
  assumes "(p, rep) \<in> set (writes (snd (run e [])))"
  shows "tool_ok e \<and> report_error e = None \<and> p = report_path e \<and> rep = full_run_report e"
  using assms by (simp add: full_writes_eq split: if_splits)

subsection \<open>The four worlds\<close>

lemma env_all_pass_ok:
  "tool_ok env_all_pass" "report_error env_all_pass = None"
  by (simp_all add: tool_ok_def report_error_def env_all_pass_def is_returned_def)

lemma env_smoke_fails_ok:
  "tool_ok env_smoke_fails" "report_error env_smoke_fails = None"
  by (simp_all add: tool_ok_def report_error_def env_smoke_fails_def env_all_pass_def is_returned_def)

lemma env_smoke_fails_entries:
  "map (entry_of env_smoke_fails) testSuites =
    [\<lparr>entry_name = ''Smoke Tests'', entry_success = False, entry_critical = True,
      entry_output = Some ''{}''\<rparr>,
     \<lparr>entry_name = ''API Tests'', entry_success = True, entry_critical = True,
      entry_output = Some ''{}''\<rparr>,
     \<lparr>entry_name = ''E2E Tests'', entry_success = True, entry_critical = False,
      entry_output = Some ''{}''\<rparr>,
     \<lparr>entry_name = ''Performance Tests'', entry_success = True, entry_critical = False,
      entry_output = Some ''{}''\<rparr>,
     \<lparr>entry_name = ''Accessibility Tests'', entry_success = True, entry_critical = False,
      entry_output = Some ''{}''\<rparr>,
     \<lparr>entry_name = ''Security Tests'', entry_success = True, entry_critical = False,
      entry_output = Some ''{}''\<rparr>]"
  by (simp add: testSuites_def entry_of_def env_smoke_fails_def env_all_pass_def is_returned_def)

lemma show_31000: "show_int 31000 = ''31000''"
  by (simp add: show_int_def show_nat.simps)

lemma writes_smoke_fails:
  "writes (snd (run env_smoke_fails [])) =
     [(''/repo/test-results/summary-report.json'', report_smoke_fails)]"
proof -
  have "full_run_reads env_smoke_fails = 31"
    unfolding full_run_reads_def env_smoke_fails_entries by simp
  then have "full_run_report env_smoke_fails = report_smoke_fails"
    unfolding full_run_report_def env_smoke_fails_entries
    by (simp add: report_def results_json_def entry_json_def report_smoke_fails_def
        env_smoke_fails_def env_all_pass_def environment_def round_seconds_def show_31000)
  moreover have "report_path env_smoke_fails = ''/repo/test-results/summary-report.json''"
    by (simp add: report_path_def env_smoke_fails_def env_all_pass_def)
  ultimately show ?thesis
    by (simp add: full_writes_eq env_smoke_fails_ok)
qed

section \<open>The claims\<close>

subsection \<open>C1: the exit code of a full run\<close>

text \<open>
  C1 says that a full run (no arguments) exits with code 0 when no critical category failed
  and with a non-zero code when at least one critical category failed. The second half does
  not hold: in the world where the smoke suite, a critical one, exits with a non-zero status,
  the first entry of the results is the failed critical suite and the process exits with
  code 0.
\<close>

theorem critical_failure_exit_counterexample:
  "entry_name (suites (results (snd (run env_smoke_fails []))) ! 0) = ''Smoke Tests''
   \<and> entry_critical (suites (results (snd (run env_smoke_fails []))) ! 0)
   \<and> \<not> entry_success (suites (results (snd (run env_smoke_fails []))) ! 0)
   \<and> fst (run env_smoke_fails []) = 0"
  by (simp add: full_results full_exit_code env_smoke_fails_ok env_smoke_fails_entries)

text \<open>
  C1, as amended: the exit code of a full run does not depend on the outcomes of the
  categories. It is 0 when the prerequisite check finds the automation tool and the report is
  written without an error, and 1 otherwise (the tool is missing, or making the report
  directory or writing the report throws).
\<close>

theorem full_run_exit_code:
  "fst (run e []) = (if tool_ok e \<and> report_error e = None then 0 else 1)"
  by (simp add: full_exit_code)

theorem full_run_exit_code_witness:
  "tool_ok env_all_pass \<and> report_error env_all_pass = None \<and> fst (run env_all_pass []) = 0"
  using full_run_exit_code [of env_all_pass] by (simp add: env_all_pass_ok)

subsection \<open>C2: the classification\<close>

text \<open>
  C2: in a full run (one that gets past the prerequisite check, so that the categories run)
  the console holds exactly one of the three closing messages, the one the rule of the
  specification gives for the recorded results: critical failure if any critical category
  failed, else non-critical failure if any category failed, else all pass. The recorded
  results are those of the six suites, in order.
\<close>

theorem full_run_classification:
  assumes "tool_ok e"
  shows "reported (console (snd (run e []))) =
           [spec_classification (suites (results (snd (run e []))))]
         \<and> suites (results (snd (run e []))) = map (entry_of e) testSuites"
  using assms by (simp add: full_reported full_results)

theorem full_run_classification_witness:
  "tool_ok env_smoke_fails \<and> reported (console (snd (run env_smoke_fails []))) = [CriticalFailure]"
  using full_run_classification [of env_smoke_fails]
  by (simp add: env_smoke_fails_ok env_smoke_fails_entries spec_classification_def)

subsection \<open>C3: the two counters\<close>

text \<open>
  C3: after every category invocation of the loop, that is after the first \<open>k\<close> suites for
  every \<open>k\<close> up to their number, the count of critical failures is at most the count of
  failures, which is at most \<open>k\<close>, the number of categories invoked so far (and of entries
  pushed so far); the rest of the loop goes on from these values.
\<close>

theorem counters_invariant:
  assumes "k \<le> length testSuites"
    and "run_suites e (take k testSuites) (0, 0, s) = (criticalFailures, totalFailures, s')"
  shows "criticalFailures \<le> totalFailures \<and> totalFailures \<le> k
         \<and> length (categories_invoked s') = length (categories_invoked s) + k
         \<and> length (suites (results s')) = length (suites (results s)) + k
         \<and> run_suites e testSuites (0, 0, s)
             = run_suites e (drop k testSuites) (criticalFailures, totalFailures, s')"
proof -
  let ?xs = "map (entry_of e) (take k testSuites)"
  have cf: "criticalFailures = length (filter (\<lambda>x. \<not> entry_success x \<and> entry_critical x) ?xs)"
    using run_suites_counters(1) [of e "take k testSuites" 0 0 s] assms(2) by simp
  have tf: "totalFailures = length (filter (\<lambda>x. \<not> entry_success x) ?xs)"
    using run_suites_counters(2) [of e "take k testSuites" 0 0 s] assms(2) by simp
  have s': "s' = snd (snd (run_suites e (take k testSuites) (0, 0, s)))"
    using assms(2) by simp
  have "criticalFailures \<le> totalFailures"
    unfolding cf tf by (rule length_filter_mono) simp
  moreover have "totalFailures \<le> k"
  proof -
    have "totalFailures \<le> length ?xs" unfolding tf by (rule length_filter_le)
    then show ?thesis using assms(1) by simp
  qed
  moreover have "length (categories_invoked s') = length (categories_invoked s) + k"
    using assms(1)
    by (simp add: s' categories_invoked_def run_suites_execs categories_of_suites set_take_subset)
  moreover have "length (suites (results s')) = length (suites (results s)) + k"
    using assms(1) by (simp add: s' run_suites_results)
  moreover have "run_suites e testSuites (0, 0, s)
      = run_suites e (drop k testSuites) (criticalFailures, totalFailures, s')"
    using run_suites_append [of e "take k testSuites" "drop k testSuites" "(0, 0, s)"] assms(2)
    by simp
  ultimately show ?thesis by simp
qed

theorem counters_invariant_witness:
  "(3::nat) \<le> length testSuites
   \<and> fst (run_suites env_smoke_fails (take 3 testSuites) (0, 0, constructor env_smoke_fails)) = 1
   \<and> fst (snd (run_suites env_smoke_fails (take 3 testSuites) (0, 0, constructor env_smoke_fails))) = 1
   \<and> length (suites (results (snd (snd (run_suites env_smoke_fails (take 3 testSuites)
                 (0, 0, constructor env_smoke_fails)))))) = 3"
proof -
  let ?st = "run_suites env_smoke_fails (take 3 testSuites) (0, 0, constructor env_smoke_fails)"
  have k: "(3::nat) \<le> length testSuites" by (simp add: testSuites_def)
  have eq: "?st = (fst ?st, fst (snd ?st), snd (snd ?st))" by simp
  have c1: "fst ?st = 1"
    by (subst run_suites_counters(1))
       (simp add: testSuites_def entry_of_def env_smoke_fails_def env_all_pass_def is_returned_def)
  have c2: "fst (snd ?st) = 1"
    by (subst run_suites_counters(2))
       (simp add: testSuites_def entry_of_def env_smoke_fails_def env_all_pass_def is_returned_def)
  show ?thesis
    using counters_invariant [OF k eq] k c1 c2 by simp
qed

subsection \<open>C4: the counts of the persisted summary\<close>

text \<open>
  C4: in every report a full run writes, \<^verbatim>\<open>summary.totalSuites\<close> is the number of categories
  invoked, and \<^verbatim>\<open>summary.passedSuites\<close> and \<^verbatim>\<open>summary.failedSuites\<close> add up to it.
\<close>

theorem persisted_summary_totals:
  assumes "(p, rep) \<in> set (writes (snd (run e [])))"
  shows "\<exists>t np nf.
           json_at [''summary'', ''totalSuites''] rep = Some (JNum t)
         \<and> json_at [''summary'', ''passedSuites''] rep = Some (JNum np)
         \<and> json_at [''summary'', ''failedSuites''] rep = Some (JNum nf)
         \<and> t = int (length (categories_invoked (snd (run e []))))
         \<and> np + nf = t"
proof -
  from persisted_report [OF assms]
  have ok: "tool_ok e" and rep: "rep = full_run_report e" by simp_all
  have "int (length (filter (entry_success \<circ> entry_of e) testSuites))
      + int (length (filter (\<lambda>x. \<not> (entry_success \<circ> entry_of e) x) testSuites))
      = int (length testSuites)"
    by (simp only: sum_length_filter_compl flip: of_nat_add)
  then show ?thesis
    using ok by (simp add: rep full_run_report_def full_categories comp_def)
qed

theorem persisted_summary_totals_witness:
  "(''/repo/test-results/summary-report.json'', report_smoke_fails)
     \<in> set (writes (snd (run env_smoke_fails [])))
   \<and> json_at [''summary'', ''totalSuites''] report_smoke_fails = Some (JNum 6)
   \<and> json_at [''summary'', ''passedSuites''] report_smoke_fails = Some (JNum 5)
   \<and> json_at [''summary'', ''failedSuites''] report_smoke_fails = Some (JNum 1)
   \<and> length (categories_invoked (snd (run env_smoke_fails []))) = 6"
proof -
  have m: "(''/repo/test-results/summary-report.json'', report_smoke_fails)
     \<in> set (writes (snd (run env_smoke_fails [])))"
    unfolding writes_smoke_fails by simp
  have "json_at [''summary'', ''totalSuites''] report_smoke_fails = Some (JNum 6)"
       "json_at [''summary'', ''passedSuites''] report_smoke_fails = Some (JNum 5)"
       "json_at [''summary'', ''failedSuites''] report_smoke_fails = Some (JNum 1)"
    by (simp_all add: report_smoke_fails_def json_at_Nil json_at_Cons)
  then show ?thesis
    using persisted_summary_totals [OF m] m by auto
qed

subsection \<open>C5: a failing category does not stop the run\<close>

text \<open>
  C5: in a full run every one of the six categories is invoked, in order and with a timeout of
  300000 milliseconds, whatever the earlier ones did; the entry recorded for a category is
  a success exactly when its invocation did not throw, so a non-zero exit and a timeout are both
  recorded as failures; and the exit code depends on the report alone.
\<close>

theorem category_failures_recorded:
  assumes "tool_ok e"
  shows "map cmd (categories_invoked (snd (run e []))) = map command testSuites
    \<and> (\<forall>c \<in> set (categories_invoked (snd (run e []))). timeout (opts c) = Some 300000)
    \<and> length (suites (results (snd (run e [])))) = length testSuites
    \<and> (\<forall>i < length testSuites.
          entry_name (suites (results (snd (run e []))) ! i) = name (testSuites ! i)
          \<and> entry_success (suites (results (snd (run e []))) ! i)
              = (\<forall>err. outcome (categories_invoked (snd (run e [])) ! i) \<noteq> Failed err))
    \<and> fst (run e []) = (if report_error e = None then 0 else 1)"
proof -
  have "is_returned r = (\<forall>err. r \<noteq> Failed err)" for r
    by (cases r) (simp_all add: is_returned_def)
  then show ?thesis
    using assms
    by (simp add: full_categories full_results full_exit_code category_call_def entry_of_def
        suite_options_def comp_def)
qed

theorem category_failures_recorded_witness:
  "tool_ok env_e2e_timeout
   \<and> outcome (categories_invoked (snd (run env_e2e_timeout [])) ! 2)
       = Failed \<lparr>kind = TimedOut, message = ''spawnSync /bin/sh ETIMEDOUT'', stdout = Some []\<rparr>
   \<and> \<not> entry_success (suites (results (snd (run env_e2e_timeout []))) ! 2)
   \<and> map cmd (categories_invoked (snd (run env_e2e_timeout []))) = map command testSuites
   \<and> fst (run env_e2e_timeout []) = 0"
proof -
  have ok: "tool_ok env_e2e_timeout"
    by (simp add: tool_ok_def env_e2e_timeout_def env_all_pass_def is_returned_def)
  have err: "report_error env_e2e_timeout = None"
    by (simp add: report_error_def env_e2e_timeout_def env_all_pass_def)
  have out: "outcome (categories_invoked (snd (run env_e2e_timeout [])) ! 2)
       = Failed \<lparr>kind = TimedOut, message = ''spawnSync /bin/sh ETIMEDOUT'', stdout = Some []\<rparr>"
    by (subst categories_invoked_run, subst full_categories, subst if_P [OF ok])
       (simp add: testSuites_def category_call_def env_e2e_timeout_def env_all_pass_def)
  have two: "(2::nat) < length testSuites" by (simp add: testSuites_def)
  show ?thesis
    using category_failures_recorded [OF ok] ok err out two by auto
qed

subsection \<open>C6: one named suite\<close>

text \<open>
  What holds for every name: with the arguments \<^verbatim>\<open>--suite name\<close>, for a name that is not
  empty and is not one of the flags looked at before (\<^verbatim>\<open>--help\<close>, \<^verbatim>\<open>-h\<close>,
  \<^verbatim>\<open>--check-prereq\<close>), the runner executes exactly one command, filtered by the tag of that
  name, and writes no report: no file, no directory, no entry in the results.
\<close>

theorem suite_selector:
  assumes "nm \<noteq> []" and "nm \<notin> {''--help'', ''-h'', ''--check-prereq''}"
  shows "map cmd (execs (snd (run e [''--suite'', nm])))
           = [''npx playwright test --grep \"@'' @ nm @ ''\"'']
       \<and> categories_invoked (snd (run e [''--suite'', nm])) = execs (snd (run e [''--suite'', nm]))
       \<and> length (categories_invoked (snd (run e [''--suite'', nm]))) = 1
       \<and> writes (snd (run e [''--suite'', nm])) = []
       \<and> mkdirs (snd (run e [''--suite'', nm])) = []
       \<and> suites (results (snd (run e [''--suite'', nm]))) = []
       \<and> fst (run e [''--suite'', nm]) = 0"
proof -
  have m: "main e [''--suite'', nm] =
     Done (snd (runTestSuite e (nm @ '' tests'')
                  (''npx playwright test --grep \"@'' @ nm @ ''\"'') (constructor e)))"
    using assms by (intro main_suite) simp_all
  show ?thesis
    by (simp add: m categories_invoked_def is_category_invocation_def)
qed

theorem suite_selector_witness:
  "map cmd (execs (snd (run env_all_pass [''--suite'', ''smoke''])))
           = [''npx playwright test --grep \"@smoke\"'']
   \<and> length (categories_invoked (snd (run env_all_pass [''--suite'', ''smoke'']))) = 1
   \<and> writes (snd (run env_all_pass [''--suite'', ''smoke''])) = []"
proof -
  have a: "''smoke'' \<noteq> []" by simp
  have b: "''smoke'' \<notin> {''--help'', ''-h'', ''--check-prereq''}" by simp
  have s: "''npx playwright test --grep \"@'' @ ''smoke'' @ ''\"''
             = ''npx playwright test --grep \"@smoke\"''" by simp
  from suite_selector [OF a b, of env_all_pass] show ?thesis
    unfolding s by (elim conjE, intro conjI) assumption+
qed

text \<open>
  C6 says that \<^verbatim>\<open>--suite name\<close> invokes exactly one category, the named one, and produces no
  aggregate report. For the name \<^verbatim>\<open>accessibility\<close>, which the usage text lists among the
  available suites, the code does not invoke the named category: the one command it runs
  filters on the tag \<^verbatim>\<open>@accessibility\<close>, while the accessibility category of \<^verbatim>\<open>testSuites\<close>
  filters on \<^verbatim>\<open>@a11y\<close>, the tag every test of the category carries in its title, and no title
  of the category contains \<^verbatim>\<open>@accessibility\<close>. The theorem evaluates the code at this input,
  in every world.
\<close>

theorem suite_accessibility_filter:
  "map cmd (execs (snd (run e [''--suite'', ''accessibility''])))
     = [''npx playwright test --grep \"@accessibility\"'']
   \<and> map (\<lambda>c. grep_filter (cmd c)) (execs (snd (run e [''--suite'', ''accessibility''])))
     = [Some ''@accessibility'']
   \<and> map (\<lambda>t. (name t, grep_filter (command t))) testSuites =
     [(''Smoke Tests'', Some ''@smoke''), (''API Tests'', Some ''@api''),
      (''E2E Tests'', Some ''@e2e''), (''Performance Tests'', Some ''@performance''),
      (''Accessibility Tests'', Some ''@a11y''), (''Security Tests'', Some ''@security'')]
   \<and> filter (occurs_in ''@a11y'') accessibility_titles = accessibility_titles
   \<and> filter (occurs_in ''@accessibility'') accessibility_titles = []"
proof -
  have m: "main e [''--suite'', ''accessibility''] =
     Done (snd (runTestSuite e (''accessibility'' @ '' tests'')
                  (''npx playwright test --grep \"@'' @ ''accessibility'' @ ''\"'') (constructor e)))"
    by (rule main_suite) simp_all
  have c: "map cmd (execs (snd (run e [''--suite'', ''accessibility''])))
     = [''npx playwright test --grep \"@accessibility\"'']"
    by (simp add: m)
  have g: "grep_filter ''npx playwright test --grep \"@accessibility\"'' = Some ''@accessibility''"
    by (simp add: grep_filter_def)
  have f: "map (\<lambda>c. grep_filter (cmd c)) (execs (snd (run e [''--suite'', ''accessibility''])))
     = [Some ''@accessibility'']"
  proof -
    have "map (\<lambda>c. grep_filter (cmd c)) (execs (snd (run e [''--suite'', ''accessibility''])))
        = map grep_filter (map cmd (execs (snd (run e [''--suite'', ''accessibility'']))))"
      by (simp add: comp_def)
    also have "\<dots> = [Some ''@accessibility'']"
      unfolding c by (simp add: g)
    finally show ?thesis .
  qed
  show ?thesis
    using c f suite_filters titles_a11y titles_accessibility by (intro conjI)
qed

subsection \<open>C7: the prerequisite check\<close>

text \<open>
  C7 says that \<^verbatim>\<open>--check-prereq\<close> exits with a non-zero code whenever the tool or the network
  target is unreachable. For the network target this does not hold: in the world where the tool
  answers and \<^verbatim>\<open>ping\<close> fails, the process exits with code 0.
\<close>

theorem check_prereq_network_counterexample:
  "execSync_result env_network_down ''ping -c 1 li.fi''
       \<lparr>encoding = None, stdio = ''pipe'', timeout = Some 5000\<rparr>
     = Failed \<lparr>kind = NonZeroExit, message = ''Command failed: ping -c 1 li.fi'', stdout = Some []\<rparr>
   \<and> fst (run env_network_down [''--check-prereq'']) = 0"
proof -
  have "tool_ok env_network_down"
    by (simp add: tool_ok_def env_network_down_def env_all_pass_def is_returned_def)
  then have "fst (run env_network_down [''--check-prereq'']) = 0"
    by (simp add: main_check_prereq checkPrerequisites_exit)
  then show ?thesis
    by (simp add: env_network_down_def env_all_pass_def)
qed

text \<open>
  C7, as amended: with \<^verbatim>\<open>--check-prereq\<close> the runner invokes no category and writes nothing;
  it checks the tool first and exits with code 1 when the tool is unreachable, without checking
  the network; when the tool is reachable it checks the network target too and exits with
  code 0, and an unreachable network target is only logged as a warning.
\<close>

theorem check_prereq_behaviour:
  "categories_invoked (snd (run e [''--check-prereq''])) = []
   \<and> suites (results (snd (run e [''--check-prereq'']))) = []
   \<and> writes (snd (run e [''--check-prereq''])) = []
   \<and> map cmd (execs (snd (run e [''--check-prereq''])))
        = (if tool_ok e then [''npx playwright --version'', ''ping -c 1 li.fi'']
           else [''npx playwright --version''])
   \<and> fst (run e [''--check-prereq'']) = (if tool_ok e then 0 else 1)
   \<and> (tool_ok e \<and> \<not> network_ok e \<longrightarrow>
        (\<exists>ts. last (console (snd (run e [''--check-prereq''])))
                = Logged Warn ts (warning_sign @ ''  Network connectivity issue detected'')))"
proof -
  have c: "console (snd (run e [''--check-prereq'']))
             = console (final_state (checkPrerequisites e (constructor e)))"
    by (rule checkPrerequisites_cases [of e "constructor e"])
       (simp_all add: run_def main_check_prereq)
  have cats: "categories_invoked (snd (run e [''--check-prereq''])) = []"
    by (simp add: main_check_prereq categories_invoked_def checkPrerequisites_execs)
  have cmds: "map cmd (execs (snd (run e [''--check-prereq''])))
        = (if tool_ok e then [''npx playwright --version'', ''ping -c 1 li.fi'']
           else [''npx playwright --version''])"
    by (simp add: main_check_prereq checkPrerequisites_execs version_call_def ping_call_def)
  show ?thesis
    using checkPrerequisites_last [of e "constructor e"] cats cmds
    by (simp add: c main_check_prereq checkPrerequisites_exit)
qed

theorem check_prereq_behaviour_witness:
  "tool_ok env_network_down \<and> \<not> network_ok env_network_down
   \<and> categories_invoked (snd (run env_network_down [''--check-prereq''])) = []
   \<and> map cmd (execs (snd (run env_network_down [''--check-prereq''])))
        = [''npx playwright --version'', ''ping -c 1 li.fi'']
   \<and> (\<exists>ts. last (console (snd (run env_network_down [''--check-prereq''])))
                = Logged Warn ts (warning_sign @ ''  Network connectivity issue detected''))"
proof -
  have ok: "tool_ok env_network_down"
    by (simp add: tool_ok_def env_network_down_def env_all_pass_def is_returned_def)
  have down: "\<not> network_ok env_network_down"
    by (simp add: network_ok_def env_network_down_def env_all_pass_def is_returned_def)
  show ?thesis
    using check_prereq_behaviour [of env_network_down] ok down by simp
qed

subsection \<open>C8: the order of the persisted results\<close>

text \<open>
  C8: in every report a full run writes, the entries of \<^verbatim>\<open>results.suites\<close> stand in the order
  in which the categories were invoked: the names are those of \<^verbatim>\<open>testSuites\<close> in order, the
  invoked commands are the commands of \<^verbatim>\<open>testSuites\<close> in order, and each entry's success is
  the outcome of the invocation at the same position.
\<close>

theorem persisted_order:
  assumes "(p, rep) \<in> set (writes (snd (run e [])))"
  shows "map (json_field ''name'') (persisted_suites rep)
           = map (\<lambda>t. Some (JStr (name t))) testSuites
         \<and> map cmd (categories_invoked (snd (run e []))) = map command testSuites
         \<and> map (json_field ''success'') (persisted_suites rep)
             = map (\<lambda>c. Some (JBool (\<forall>err. outcome c \<noteq> Failed err)))
                   (categories_invoked (snd (run e [])))"
proof -
  from persisted_report [OF assms]
  have ok: "tool_ok e" and rep: "rep = full_run_report e" by simp_all
  have "is_returned r = (\<forall>err. r \<noteq> Failed err)" for r
    by (cases r) (simp_all add: is_returned_def)
  then show ?thesis
    using ok
    by (simp add: rep full_run_report_def persisted_suites_def full_categories comp_def
        entry_of_def category_call_def)
qed

theorem persisted_order_witness:
  "(''/repo/test-results/summary-report.json'', report_smoke_fails)
     \<in> set (writes (snd (run env_smoke_fails [])))
   \<and> map (json_field ''name'') (persisted_suites report_smoke_fails) =
             [Some (JStr ''Smoke Tests''), Some (JStr ''API Tests''), Some (JStr ''E2E Tests''),
              Some (JStr ''Performance Tests''), Some (JStr ''Accessibility Tests''),
              Some (JStr ''Security Tests'')]
   \<and> map cmd (categories_invoked (snd (run env_smoke_fails []))) = map command testSuites"
proof -
  have m: "(''/repo/test-results/summary-report.json'', report_smoke_fails)
     \<in> set (writes (snd (run env_smoke_fails [])))"
    unfolding writes_smoke_fails by simp
  have n: "map (\<lambda>t. Some (JStr (name t))) testSuites =
             [Some (JStr ''Smoke Tests''), Some (JStr ''API Tests''), Some (JStr ''E2E Tests''),
              Some (JStr ''Performance Tests''), Some (JStr ''Accessibility Tests''),
              Some (JStr ''Security Tests'')]"
    by (simp add: testSuites_def)
  from persisted_order [OF m]
  have "map (json_field ''name'') (persisted_suites report_smoke_fails)
           = map (\<lambda>t. Some (JStr (name t))) testSuites"
    and "map cmd (categories_invoked (snd (run env_smoke_fails []))) = map command testSuites"
    by (rule conjunct1, rule conjunct2 [THEN conjunct1])
  then show ?thesis
    using m unfolding n by (intro conjI)
qed

subsection \<open>C9: the quick mode\<close>

text \<open>
  C9: with \<^verbatim>\<open>--quick\<close> the runner invokes exactly two categories, smoke and then API, writes
  no report and appends nothing to the list of results.
\<close>

theorem quick_mode:
  "map cmd (execs (snd (run e [''--quick''])))
     = [''npx playwright test --grep \"@smoke\"'', ''npx playwright test --grep \"@api\"'']
   \<and> categories_invoked (snd (run e [''--quick''])) = execs (snd (run e [''--quick'']))
   \<and> length (categories_invoked (snd (run e [''--quick'']))) = 2
   \<and> writes (snd (run e [''--quick''])) = []
   \<and> mkdirs (snd (run e [''--quick''])) = []
   \<and> suites (results (snd (run e [''--quick'']))) = []
   \<and> fst (run e [''--quick'']) = 0"
  by (simp add: main_quick categories_invoked_def is_category_invocation_def)

theorem quick_mode_witness:
  "map cmd (execs (snd (run env_e2e_timeout [''--quick''])))
     = [''npx playwright test --grep \"@smoke\"'', ''npx playwright test --grep \"@api\"'']
   \<and> length (categories_invoked (snd (run env_e2e_timeout [''--quick'']))) = 2
   \<and> writes (snd (run env_e2e_timeout [''--quick''])) = []
   \<and> suites (results (snd (run env_e2e_timeout [''--quick'']))) = []"
  using quick_mode [of env_e2e_timeout] by (elim conjE, intro conjI) assumption+

subsection \<open>C10: the counters nobody updates\<close>

text \<open>
  C10: in every report a full run writes, the four counters \<^verbatim>\<open>total\<close>, \<^verbatim>\<open>passed\<close>,
  \<^verbatim>\<open>failed\<close> and \<^verbatim>\<open>skipped\<close> of the object \<^verbatim>\<open>results\<close> are 0 whatever the categories
  did, while the four counts of the object \<^verbatim>\<open>summary\<close> are the numbers of categories invoked,
  of invocations that returned, of invocations that threw, and of critical suites whose
  invocation threw.
\<close>

theorem persisted_counters:
  assumes "(p, rep) \<in> set (writes (snd (run e [])))"
  shows "json_at [''results'', ''total''] rep = Some (JNum 0)
       \<and> json_at [''results'', ''passed''] rep = Some (JNum 0)
       \<and> json_at [''results'', ''failed''] rep = Some (JNum 0)
       \<and> json_at [''results'', ''skipped''] rep = Some (JNum 0)
       \<and> json_at [''summary'', ''totalSuites''] rep
           = Some (JNum (int (length (categories_invoked (snd (run e []))))))
       \<and> json_at [''summary'', ''passedSuites''] rep
           = Some (JNum (int (length (filter (\<lambda>c. \<forall>err. outcome c \<noteq> Failed err)
                                        (categories_invoked (snd (run e [])))))))
       \<and> json_at [''summary'', ''failedSuites''] rep
           = Some (JNum (int (length (filter (\<lambda>c. \<exists>err. outcome c = Failed err)
                                        (categories_invoked (snd (run e [])))))))
       \<and> json_at [''summary'', ''criticalFailures''] rep
           = Some (JNum (int (length (filter
                (\<lambda>t. (\<exists>err. execSync_result e (command t) suite_options = Failed err) \<and> critical t)
                testSuites))))"
proof -
  from persisted_report [OF assms]
  have ok: "tool_ok e" and rep: "rep = full_run_report e" by simp_all
  have r: "is_returned r = (\<forall>err. r \<noteq> Failed err)" for r
    by (cases r) (simp_all add: is_returned_def)
  show ?thesis
    using ok
    by (simp add: rep full_run_report_def full_categories filter_map comp_def entry_of_def
        category_call_def r)
qed

theorem persisted_counters_witness:
  "(''/repo/test-results/summary-report.json'', report_smoke_fails)
     \<in> set (writes (snd (run env_smoke_fails [])))
   \<and> json_at [''results'', ''total''] report_smoke_fails = Some (JNum 0)
   \<and> json_at [''results'', ''passed''] report_smoke_fails = Some (JNum 0)
   \<and> json_at [''results'', ''failed''] report_smoke_fails = Some (JNum 0)
   \<and> json_at [''results'', ''skipped''] report_smoke_fails = Some (JNum 0)
   \<and> json_at [''summary'', ''failedSuites''] report_smoke_fails = Some (JNum 1)
   \<and> json_at [''summary'', ''criticalFailures''] report_smoke_fails = Some (JNum 1)"
proof -
  have m: "(''/repo/test-results/summary-report.json'', report_smoke_fails)
     \<in> set (writes (snd (run env_smoke_fails [])))"
    unfolding writes_smoke_fails by simp
  have "json_at [''summary'', ''failedSuites''] report_smoke_fails = Some (JNum 1)"
       "json_at [''summary'', ''criticalFailures''] report_smoke_fails = Some (JNum 1)"
    by (simp_all add: report_smoke_fails_def json_at_Nil json_at_Cons)
  then show ?thesis
    using persisted_counters [OF m] m by simp
qed

end
